theory Spec2Isabelle
  imports Main "HOL-Library.Word"
begin

unbundle bit_operations_syntax

section \<open>Values shared by the modules\<close>

text \<open>
  A Buffer is a list of bytes. Addresses, hashes and storage keys are Buffers. A BN
  (bn.js big number) is an unbounded signed integer; its \<open>div\<close> truncates towards zero.
  The errors are the VmErrors of the opcode functions, the TypeError of JavaScript and
  the error a failed \<open>assert\<close> of bn.js throws.
\<close>

type_synonym byte = "8 word"
type_synonym buffer = "byte list"
type_synonym address = buffer

definition bn_div :: "int \<Rightarrow> int \<Rightarrow> int" where
  "bn_div a b = sgn a * sgn b * (\<bar>a\<bar> div \<bar>b\<bar>)"

datatype vm_error =
    OUT_OF_GAS | STACK_UNDERFLOW | STACK_OVERFLOW | INVALID_JUMP | INVALID_OPCODE
  | TypeError | AssertionError

subsection \<open>The fee table\<close>

text \<open>
  Modelled from the spec: the fee table \<open>fees\<close> of the package ethereum-common, which the
  opcode functions read (\<open>fees.memoryGas.v\<close> and so on) and which is not part of the
  sources. The values are those the spec and the comments of the code give (memory:
  "words * 3 + words ^2 / 512"; SSTORE: reset 5000, refund 15000; stipend 2300;
  stack limit 1024) and the Homestead values for the rest.
\<close>

definition memoryGas :: int where "memoryGas = 3"
definition quadCoeffDiv :: int where "quadCoeffDiv = 512"
definition sstoreSetGas :: int where "sstoreSetGas = 20000"
definition sstoreResetGas :: int where "sstoreResetGas = 5000"
definition sstoreRefundGas :: int where "sstoreRefundGas = 15000"
definition createDataGas :: int where "createDataGas = 200"

subsection \<open>Buffers and numbers\<close>

text \<open>
  \<open>new BN(buffer)\<close> reads a Buffer as a big-endian number (\<open>be_int\<close>).
  \<open>bn.toArrayLike(Buffer, 'be', n)\<close> writes the magnitude of a number as exactly \<open>n\<close>
  big-endian bytes (\<open>be_bytes n\<close>) and fails an assertion when the magnitude needs
  more than \<open>n\<close> bytes. \<open>unpad\<close> strips the leading zero bytes. \<open>bn.addn(num)\<close> adds a
  JavaScript number and asserts that it is below 0x4000000.
\<close>

definition be_int :: "buffer \<Rightarrow> int" where
  "be_int bs = foldl (\<lambda>n b. n * 256 + uint b) 0 bs"

fun be_bytes :: "nat \<Rightarrow> int \<Rightarrow> buffer" where
  "be_bytes 0 v = []"
| "be_bytes (Suc n) v = be_bytes n (v div 256) @ [word_of_int v]"

definition toArrayLike :: "nat \<Rightarrow> int \<Rightarrow> vm_error + buffer" where
  "toArrayLike n v = (if \<bar>v\<bar> < 256 ^ n then Inr (be_bytes n \<bar>v\<bar>) else Inl AssertionError)"

definition addn :: "int \<Rightarrow> int \<Rightarrow> vm_error + int" where
  "addn a num = (if num < 0x4000000 then Inr (a + num) else Inl AssertionError)"

definition unpad :: "buffer \<Rightarrow> buffer" where
  "unpad bs = dropWhile (\<lambda>b. b = 0) bs"


section \<open>The run state of a frame (opcode functions)\<close>

record account =
  nonce :: int
  balance :: int
  stateRoot :: buffer
  codeHash :: buffer
  acc_exists :: bool

record runState =
  rs_address :: address
  rs_caller :: address
  rs_origin :: address
  rs_callValue :: int
  rs_callData :: buffer
  rs_gasPrice :: int
  gasLeft :: int
  gasRefund :: int
  stack :: "int list"
  memory :: buffer
  memoryWordCount :: int
  highestMemCost :: int
  rs_depth :: int
  contract :: account

text \<open>
  \<open>subGas\<close> subtracts first and traps afterwards: the thrown VmError leaves the
  decremented \<open>gasLeft\<close> behind. A trap is \<open>Inl\<close> of the error and the state at the throw.
\<close>

definition subGas :: "runState \<Rightarrow> int \<Rightarrow> (vm_error \<times> runState) + runState" where
  "subGas s amount =
     (let s' = s\<lparr>gasLeft := gasLeft s - amount\<rparr>
      in if gasLeft s' < 0 then Inl (OUT_OF_GAS, s') else Inr s')"

text \<open>
  \<open>subMemUsage (runState, offset, length)\<close>. Both \<open>offset\<close> and \<open>length\<close> are BN objects
  (the documented parameter type, and what every caller in the file passes). The guard
  \<open>if (!length) return\<close> negates an object, and in JavaScript every object is truthy,
  whatever number it holds: \<open>js_not_object\<close> is that negation.
\<close>

definition js_not_object :: "int \<Rightarrow> bool" where
  "js_not_object bn = False"

definition memCost :: "int \<Rightarrow> int" where
  "memCost words = words * memoryGas + bn_div (words * words) quadCoeffDiv"

definition subMemUsage :: "runState \<Rightarrow> int \<Rightarrow> int \<Rightarrow> (vm_error \<times> runState) + runState" where
  "subMemUsage s offset len =
     (if js_not_object len then Inr s
      else let newMemoryWordCount = bn_div (offset + len) 32
      in if newMemoryWordCount \<le> memoryWordCount s then Inr s
      else let s1 = s\<lparr>memoryWordCount := newMemoryWordCount\<rparr>;
               cost = memCost newMemoryWordCount
      in if cost > highestMemCost s1
         then (case subGas s1 (cost - highestMemCost s1) of
                 Inl e \<Rightarrow> Inl e
               | Inr s2 \<Rightarrow> Inr (s2\<lparr>highestMemCost := cost\<rparr>))
         else Inr s1)"

text \<open>\<open>CALLDATASIZE\<close> returns the BN that the interpreter pushes.\<close>

definition CALLDATASIZE :: "runState \<Rightarrow> int" where
  "CALLDATASIZE s =
     (if length (rs_callData s) = 1 \<and> rs_callData s ! 0 = 0 then 0
      else int (length (rs_callData s)))"

section \<open>The account cache and the state manager\<close>

text \<open>
  Modelled from the spec: the constants \<open>SHA3_NULL\<close> (the keccak-256 hash of the empty
  string, the code hash of an account without code) and \<open>SHA3_RLP\<close> (the root of the
  empty trie) of ethereumjs-util, which \<open>new Account()\<close> puts into a fresh account.
\<close>

definition SHA3_NULL :: buffer where
  "SHA3_NULL = [0xc5, 0xd2, 0x46, 0x01, 0x86, 0xf7, 0x23, 0x3c, 0x92, 0x7e, 0x7d, 0xb2,
     0xdc, 0xc7, 0x03, 0xc0, 0xe5, 0x00, 0xb6, 0x53, 0xca, 0x82, 0x27, 0x3b, 0x7b, 0xfa,
     0xd8, 0x04, 0x5d, 0x85, 0xa4, 0x70]"

definition SHA3_RLP :: buffer where
  "SHA3_RLP = [0x56, 0xe8, 0x1f, 0x17, 0x1b, 0xcc, 0x55, 0xa6, 0xff, 0x83, 0x45, 0xe6,
     0x92, 0xc0, 0xf8, 0x6e, 0x5b, 0x48, 0xe0, 0x1b, 0x99, 0x6c, 0xad, 0xc0, 0x01, 0x62,
     0x2f, 0xb5, 0xe3, 0x63, 0xb4, 0x21]"

definition newAccount :: account where
  "newAccount = \<lparr>nonce = 0, balance = 0, stateRoot = SHA3_RLP, codeHash = SHA3_NULL,
     acc_exists = False\<rparr>"


text \<open>
  A cache entry is the object \<open>{val, modified, exists}\<close> of \<open>_update\<close>. The red-black
  tree of the cache is keyed by the hex string of the address; hex encoding is
  injective, so the model keys the map by the address itself. \<open>_update\<close> looks a key up
  before it inserts, so the tree never holds a key twice and a map is what it is.
\<close>

record entry =
  val :: account
  modified :: bool
  en_exists :: bool

type_synonym storage = "buffer \<rightharpoonup> buffer"

text \<open>
  The state manager with its cache is one record. The fields \<open>cache\<close>, \<open>checkpoints\<close>
  and \<open>deletes\<close> are \<open>_cache\<close>, \<open>_checkpoints\<close> and \<open>_deletes\<close> of the Cache object
  (\<open>push\<close> appends to the end of \<open>_checkpoints\<close>, \<open>pop\<close> takes from the end);
  \<open>storageTries\<close> is \<open>_storageTries\<close>; \<open>trie\<close> is the state trie that the state manager
  and its cache share.
\<close>

text \<open>
  Modelled from the spec: the external Trie (merkle-patricia-tree), a key-value store
  with put, get, del and checkpoint, commit, revert. Seen through \<open>get\<close> it is a map
  from addresses to serialized accounts, with a stack of snapshots \<open>trieCheckpoints\<close>;
  the serialization of an account holds its four fields (the field \<open>acc_exists\<close> of a
  stored value is never read). The database under the trie appears as \<open>storageDb\<close>
  (the storage trie found at a state root) and \<open>codeDb\<close> (the code found at a code
  hash).
\<close>

record stateManager =
  cache :: "address \<rightharpoonup> entry"
  checkpoints :: "(address \<rightharpoonup> entry) list"
  deletes :: "address list"
  trie :: "address \<rightharpoonup> account"
  trieCheckpoints :: "(address \<rightharpoonup> account) list"
  storageTries :: "address \<rightharpoonup> storage"
  storageDb :: "buffer \<rightharpoonup> storage"
  codeDb :: "buffer \<rightharpoonup> buffer"

text \<open>
  Modelled from the spec: the functions of the packages the sources call and do not
  contain: \<open>sha3\<close> (keccak-256), \<open>rootOf\<close> (the Merkle root of a storage trie),
  \<open>generateAddress\<close> (the address a creation derives from the sender and its nonce) and
  \<open>isPrecompiled\<close>. They are parameters of the functions that use them.
\<close>

record env =
  sha3 :: "buffer \<Rightarrow> buffer"
  rootOf :: "storage \<Rightarrow> buffer"
  generateAddress :: "address \<Rightarrow> int \<Rightarrow> address"
  isPrecompiled :: "address \<Rightarrow> bool"

subsection \<open>Cache\<close>

definition cacheUpdate ::
  "stateManager \<Rightarrow> address \<Rightarrow> account \<Rightarrow> bool \<Rightarrow> bool \<Rightarrow> stateManager" where
  "cacheUpdate sm key v m ex =
     (case cache sm key of
        Some it \<Rightarrow> sm\<lparr>cache := (cache sm)(key \<mapsto> \<lparr>val = v, modified = m, en_exists = True\<rparr>)\<rparr>
      | None \<Rightarrow> sm\<lparr>cache := (cache sm)(key \<mapsto> \<lparr>val = v, modified = m, en_exists = ex\<rparr>)\<rparr>)"

definition cache_put :: "stateManager \<Rightarrow> address \<Rightarrow> account \<Rightarrow> bool \<Rightarrow> stateManager" where
  "cache_put sm key v fromTrie = cacheUpdate sm key v (\<not> fromTrie) True"

definition cache_lookup :: "stateManager \<Rightarrow> address \<Rightarrow> account option" where
  "cache_lookup sm key =
     (case cache sm key of
        Some it \<Rightarrow> Some ((val it)\<lparr>acc_exists := en_exists it\<rparr>)
      | None \<Rightarrow> None)"

definition cache_get :: "stateManager \<Rightarrow> address \<Rightarrow> account" where
  "cache_get sm key =
     (case cache_lookup sm key of
        Some a \<Rightarrow> a
      | None \<Rightarrow> newAccount\<lparr>acc_exists := False\<rparr>)"

definition lookupAccount :: "stateManager \<Rightarrow> address \<Rightarrow> account \<times> bool" where
  "lookupAccount sm a =
     (case trie sm a of
        Some raw \<Rightarrow> (raw\<lparr>acc_exists := True\<rparr>, True)
      | None \<Rightarrow> (newAccount\<lparr>acc_exists := False\<rparr>, False))"

definition getOrLoad :: "stateManager \<Rightarrow> address \<Rightarrow> stateManager \<times> account" where
  "getOrLoad sm key =
     (case cache_lookup sm key of
        Some a \<Rightarrow> (sm, a)
      | None \<Rightarrow> (let (a, ex) = lookupAccount sm key in (cacheUpdate sm key a False ex, a)))"

definition cache_checkpoint :: "stateManager \<Rightarrow> stateManager" where
  "cache_checkpoint sm = sm\<lparr>checkpoints := checkpoints sm @ [cache sm]\<rparr>"

text \<open>
  \<open>revert\<close> assigns \<open>_checkpoints.pop()\<close> to \<open>_cache\<close>. On an empty stack \<open>pop\<close> gives
  \<open>undefined\<close>, and every later access to the cache raises a TypeError: that state is
  \<open>None\<close>.
\<close>

definition cache_revert :: "stateManager \<Rightarrow> stateManager option" where
  "cache_revert sm =
     (if checkpoints sm = [] then None
      else Some (sm\<lparr>cache := last (checkpoints sm), checkpoints := butlast (checkpoints sm)\<rparr>))"

definition cache_commit :: "stateManager \<Rightarrow> stateManager" where
  "cache_commit sm = sm\<lparr>checkpoints := butlast (checkpoints sm)\<rparr>"

definition cache_clear :: "stateManager \<Rightarrow> stateManager" where
  "cache_clear sm = sm\<lparr>deletes := [], cache := Map.empty\<rparr>"

definition cache_del :: "stateManager \<Rightarrow> address \<Rightarrow> stateManager" where
  "cache_del sm key = sm\<lparr>deletes := deletes sm @ [key], cache := (cache sm)(key := None)\<rparr>"

text \<open>
  \<open>flush\<close> walks the cache from its first entry and reads \<open>it.value.modified\<close> before it
  tests whether there is an entry: on an empty cache that read raises a TypeError.
  Otherwise every modified entry is written to the trie and marked unmodified, and then
  every address of \<open>_deletes\<close> is deleted from the trie. The writes go to distinct keys,
  so their order does not show in the resulting map.
\<close>

definition cache_flush :: "stateManager \<Rightarrow> vm_error + stateManager" where
  "cache_flush sm =
     (if cache sm = Map.empty then Inl TypeError
      else
        let written = (\<lambda>k. case cache sm k of
                             Some it \<Rightarrow> if modified it then Some (val it) else trie sm k
                           | None \<Rightarrow> trie sm k);
            cleaned = (\<lambda>k. case cache sm k of
                             Some it \<Rightarrow> Some (it\<lparr>modified := False\<rparr>)
                           | None \<Rightarrow> None)
        in Inr (sm\<lparr>cache := cleaned,
                   trie := fold (\<lambda>a t. t(a := None)) (deletes sm) written,
                   deletes := []\<rparr>))"

subsection \<open>StateManager\<close>

definition getAccount :: "stateManager \<Rightarrow> address \<Rightarrow> stateManager \<times> account" where
  "getAccount sm a = getOrLoad sm a"

definition putAccount :: "stateManager \<Rightarrow> address \<Rightarrow> account \<Rightarrow> stateManager" where
  "putAccount sm a acct = cache_put sm a acct False"

definition putAccountBalance :: "stateManager \<Rightarrow> address \<Rightarrow> int \<Rightarrow> stateManager" where
  "putAccountBalance sm a b =
     (let (sm1, acct) = getAccount sm a in putAccount sm1 a (acct\<lparr>balance := b\<rparr>))"

text \<open>
  Modelled from the spec: \<open>account.setCode\<close> and \<open>account.getCode\<close> of
  ethereumjs-account, which \<open>putContractCode\<close> and \<open>getContractCode\<close> call. Code is
  content-addressed: \<open>setCode\<close> sets the code hash of the account to the hash of the
  code and stores the code under it, \<open>getCode\<close> reads the code stored under the code
  hash (the empty Buffer when there is none).
\<close>

definition putContractCode :: "env \<Rightarrow> stateManager \<Rightarrow> address \<Rightarrow> buffer \<Rightarrow> stateManager" where
  "putContractCode ev sm a v =
     (let (sm1, acct) = getAccount sm a;
          acct1 = acct\<lparr>codeHash := sha3 ev v\<rparr>;
          sm2 = sm1\<lparr>codeDb := (codeDb sm1)(sha3 ev v \<mapsto> v)\<rparr>
      in putAccount sm2 a acct1)"

definition getContractCode :: "stateManager \<Rightarrow> address \<Rightarrow> stateManager \<times> buffer" where
  "getContractCode sm a =
     (let (sm1, acct) = getAccount sm a
      in (sm1, case codeDb sm1 (codeHash acct) of Some c \<Rightarrow> c | None \<Rightarrow> []))"

text \<open>
  \<open>_lookupStorageTrie\<close> copies the state trie and sets the root of the copy to the state
  root of the account: the copy is the storage trie the database holds at that root.
\<close>

definition lookupStorageTrie :: "stateManager \<Rightarrow> address \<Rightarrow> stateManager \<times> storage" where
  "lookupStorageTrie sm a =
     (let (sm1, acct) = getAccount sm a
      in (sm1, case storageDb sm1 (stateRoot acct) of Some st \<Rightarrow> st | None \<Rightarrow> Map.empty))"

definition getStorageTrie :: "stateManager \<Rightarrow> address \<Rightarrow> stateManager \<times> storage" where
  "getStorageTrie sm a =
     (case storageTries sm a of
        Some st \<Rightarrow> (sm, st)
      | None \<Rightarrow> lookupStorageTrie sm a)"

text \<open>
  The storage trie maps a key to the RLP encoding of the stored bytes;
  \<open>getContractStorage\<close> decodes what it reads, and decoding the \<open>null\<close> of an absent key
  gives the empty Buffer. The model keeps the decoded bytes.
\<close>

definition getContractStorage :: "stateManager \<Rightarrow> address \<Rightarrow> buffer \<Rightarrow> stateManager \<times> buffer" where
  "getContractStorage sm a key =
     (let (sm1, st) = getStorageTrie sm a
      in (sm1, case st key of Some v \<Rightarrow> v | None \<Rightarrow> []))"

definition putContractStorage ::
  "env \<Rightarrow> stateManager \<Rightarrow> address \<Rightarrow> buffer \<Rightarrow> buffer \<Rightarrow> stateManager" where
  "putContractStorage ev sm a key v =
     (let (sm1, st) = getStorageTrie sm a;
          st1 = (if v \<noteq> [] then st(key \<mapsto> v) else st(key := None));
          sm2 = sm1\<lparr>storageDb := (storageDb sm1)(rootOf ev st1 \<mapsto> st1),
                    storageTries := (storageTries sm1)(a \<mapsto> st1)\<rparr>;
          contract = cache_get sm2 a
      in putAccount sm2 a (contract\<lparr>stateRoot := rootOf ev st1\<rparr>))"

text \<open>
  Modelled from the spec: \<open>checkpoint\<close>, \<open>commit\<close> and \<open>revert\<close> of the external Trie.
  A checkpoint pushes a snapshot, a commit drops the last one, a revert restores it;
  without a checkpoint a revert does nothing.
\<close>

definition trie_checkpoint :: "stateManager \<Rightarrow> stateManager" where
  "trie_checkpoint sm = sm\<lparr>trieCheckpoints := trieCheckpoints sm @ [trie sm]\<rparr>"

definition trie_commit :: "stateManager \<Rightarrow> stateManager" where
  "trie_commit sm = sm\<lparr>trieCheckpoints := butlast (trieCheckpoints sm)\<rparr>"

definition trie_revert :: "stateManager \<Rightarrow> stateManager" where
  "trie_revert sm =
     (if trieCheckpoints sm = [] then sm
      else sm\<lparr>trie := last (trieCheckpoints sm),
               trieCheckpoints := butlast (trieCheckpoints sm)\<rparr>)"

text \<open>\<open>checkpoint\<close>, \<open>commit\<close> and \<open>revert\<close> of the StateManager: the trie, then the cache.\<close>

definition sm_checkpoint :: "stateManager \<Rightarrow> stateManager" where
  "sm_checkpoint sm = cache_checkpoint (trie_checkpoint sm)"

definition sm_commit :: "stateManager \<Rightarrow> stateManager" where
  "sm_commit sm = cache_commit (trie_commit sm)"

definition sm_revert :: "stateManager \<Rightarrow> stateManager option" where
  "sm_revert sm = cache_revert (trie_revert sm)"

text \<open>
  The account writes and deletions a client of the state manager can make: the four
  functions that end in \<open>_putAccount\<close> (\<open>_putAccount\<close> itself, \<open>putAccountBalance\<close>,
  \<open>putContractCode\<close> and \<open>putContractStorage\<close>) and the deletion \<open>cache.del\<close>.
\<close>

datatype sm_op =
    PutAccount address account
  | PutAccountBalance address int
  | PutContractCode address buffer
  | PutContractStorage address buffer buffer
  | DelAccount address

fun apply_op :: "env \<Rightarrow> stateManager \<Rightarrow> sm_op \<Rightarrow> stateManager" where
  "apply_op ev sm (PutAccount a acct) = putAccount sm a acct"
| "apply_op ev sm (PutAccountBalance a b) = putAccountBalance sm a b"
| "apply_op ev sm (PutContractCode a c) = putContractCode ev sm a c"
| "apply_op ev sm (PutContractStorage a key v) = putContractStorage ev sm a key v"
| "apply_op ev sm (DelAccount a) = cache_del sm a"

fun apply_ops :: "env \<Rightarrow> stateManager \<Rightarrow> sm_op list \<Rightarrow> stateManager" where
  "apply_ops ev sm [] = sm"
| "apply_ops ev sm (x # xs) = apply_ops ev (apply_op ev sm x) xs"

fun deleted :: "sm_op list \<Rightarrow> address list" where
  "deleted [] = []"
| "deleted (DelAccount a # xs) = a # deleted xs"
| "deleted (x # xs) = deleted xs"

fun storage_write :: "sm_op \<Rightarrow> bool" where
  "storage_write (PutContractStorage a key v) = True"
| "storage_write x = False"




text \<open>
  The fields of a run state that the gas and memory accounting of an opcode leaves
  alone: two run states have the same context when they agree on the stack, the
  account of the contract and the identity of the frame.
\<close>

definition same_context :: "runState \<Rightarrow> runState \<Rightarrow> bool" where
  "same_context s s1 =
     (stack s1 = stack s \<and> contract s1 = contract s \<and> rs_address s1 = rs_address s
      \<and> rs_caller s1 = rs_caller s \<and> rs_origin s1 = rs_origin s
      \<and> rs_callValue s1 = rs_callValue s \<and> rs_gasPrice s1 = rs_gasPrice s
      \<and> rs_depth s1 = rs_depth s)"

section \<open>Opcode functions that reach the state manager\<close>




text \<open>
  \<open>SLOAD (key, runState, cb)\<close> and \<open>SSTORE (key, val, runState, cb)\<close>. The conversions of
  the key and of the value to 32 bytes come first and throw when a number does not
  fit. In SSTORE a trap of \<open>subGas\<close> is caught and handed to the callback: nothing is
  stored then, and no refund is added.
\<close>

definition SLOAD ::
  "int \<Rightarrow> runState \<Rightarrow> stateManager \<Rightarrow> vm_error + (stateManager \<times> int)" where
  "SLOAD key s sm =
     (case toArrayLike 32 key of
        Inl e \<Rightarrow> Inl e
      | Inr key1 \<Rightarrow>
          (let (sm1, v) = getContractStorage sm (rs_address s) key1
           in Inr (sm1, if v \<noteq> [] then be_int v else 0)))"

definition SSTORE ::
  "env \<Rightarrow> int \<Rightarrow> int \<Rightarrow> runState \<Rightarrow> stateManager
     \<Rightarrow> (vm_error \<times> runState \<times> stateManager) + (runState \<times> stateManager)" where
  "SSTORE ev key v s sm =
     (let address = rs_address s
      in case toArrayLike 32 key of
           Inl e \<Rightarrow> Inl (e, s, sm)
         | Inr key1 \<Rightarrow>
      (case toArrayLike 32 v of
           Inl e \<Rightarrow> Inl (e, s, sm)
         | Inr padded \<Rightarrow>
      (let value = unpad padded;
           (sm1, found) = getContractStorage sm (rs_address s) key1;
           charged =
             (if value = [] \<and> found = [] then subGas s sstoreResetGas
              else if value = [] \<and> found \<noteq> [] then
                (case subGas s sstoreResetGas of
                   Inl e \<Rightarrow> Inl e
                 | Inr s1 \<Rightarrow> Inr (s1\<lparr>gasRefund := gasRefund s1 + sstoreRefundGas\<rparr>))
              else if value \<noteq> [] \<and> found = [] then subGas s sstoreSetGas
              else if value \<noteq> [] \<and> found \<noteq> [] then subGas s sstoreResetGas
              else Inr s)
       in case charged of
            Inl (e, s1) \<Rightarrow> Inl (e, s1, sm1)
          | Inr s1 \<Rightarrow>
              (let sm2 = putContractStorage ev sm1 address key1 value
               in Inr (s1\<lparr>contract := cache_get sm2 address\<rparr>, sm2)))))"

subsection \<open>Memory reads and the CALL family\<close>




















section \<open>runCall\<close>







text \<open>
  The second half of \<open>runCall\<close>: \<open>parseRunResult\<close>, which receives the error and the
  results of the code runner, and \<open>saveCode\<close>. The fee of a creation is added with
  \<open>addn\<close>: when its assertion fails, the exception leaves \<open>parseRunResult\<close> before the
  checkpoint is committed or reverted, and \<open>runCall\<close> never calls back.
  \<open>stateManager.revert\<close> calls back without an error, so \<open>saveCode\<close> runs after a revert
  too. A Buffer that is not empty never prints as the empty string, so
  \<open>return.toString() !== ''\<close> says the Buffer is not empty.
\<close>

record vmResults =
  vr_return :: buffer
  vr_gasUsed :: int
  vr_exception :: int
  vr_exceptionError :: "vm_error option"
  vr_logs :: "buffer list"

definition parseRunResult ::
  "stateManager \<Rightarrow> address option \<Rightarrow> int \<Rightarrow> vm_error option \<Rightarrow> vmResults
     \<Rightarrow> vm_error + (vmResults \<times> stateManager option)" where
  "parseRunResult sm createdAddress gasLimit err results =
     (case (if createdAddress \<noteq> None then
              (let returnFee = int (length (vr_return results)) * createDataGas
               in case addn (vr_gasUsed results) returnFee of
                    Inl e \<Rightarrow> Inl e
                  | Inr totalGas \<Rightarrow>
                      Inr (if totalGas \<le> gasLimit \<and> length (vr_return results) \<le> 24576
                           then (results\<lparr>vr_gasUsed := totalGas\<rparr>, err)
                           else (results\<lparr>vr_return := [], vr_exception := 0,
                                          vr_exceptionError := Some OUT_OF_GAS,
                                          vr_gasUsed := gasLimit\<rparr>, Some OUT_OF_GAS)))
            else Inr (results, err)) of
        Inl e \<Rightarrow> Inl e
      | Inr (results1, err1) \<Rightarrow>
          Inr (if err1 \<noteq> None then (results1\<lparr>vr_logs := []\<rparr>, sm_revert sm)
               else (results1, Some (sm_commit sm))))"

definition saveCode :: "env \<Rightarrow> stateManager \<Rightarrow> address option \<Rightarrow> vmResults \<Rightarrow> stateManager" where
  "saveCode ev sm createdAddress vmr =
     (case createdAddress of
        Some a \<Rightarrow> if vr_return vmr \<noteq> [] then putContractCode ev sm a (vr_return vmr) else sm
      | None \<Rightarrow> sm)"

definition runCall_finish ::
  "env \<Rightarrow> stateManager \<Rightarrow> address option \<Rightarrow> int \<Rightarrow> vm_error option \<Rightarrow> vmResults
     \<Rightarrow> vm_error + (vmResults \<times> stateManager option)" where
  "runCall_finish ev sm createdAddress gasLimit err results =
     (case parseRunResult sm createdAddress gasLimit err results of
        Inl e \<Rightarrow> Inl e
      | Inr (vmr, smo) \<Rightarrow> Inr (vmr, map_option (\<lambda>sm1. saveCode ev sm1 createdAddress vmr) smo))"

section \<open>Bloom filter\<close>

text \<open>
  A Bloom object is its \<open>bitvector\<close>, a Buffer of \<open>byteSize\<close> bytes (the constructor
  asserts the length). \<open>utils.sha3\<close> is a parameter; its digest has 32 bytes, so the
  reads of \<open>readUInt16BE\<close> at the offsets 0, 2 and 4 are in range, and the byte index
  \<open>byteSize - byteLoc - 1\<close> is in range since \<open>loc\<close> is below 2048.
\<close>

definition byteSize :: nat where "byteSize = 256"

definition zeros :: "nat \<Rightarrow> buffer" where
  "zeros n = replicate n 0"

definition readUInt16BE :: "buffer \<Rightarrow> nat \<Rightarrow> nat" where
  "readUInt16BE e off = unat (e ! off) * 256 + unat (e ! (off + 1))"

fun add_loop :: "buffer \<Rightarrow> nat list \<Rightarrow> buffer \<Rightarrow> buffer" where
  "add_loop e [] bitvector = bitvector"
| "add_loop e (i # rest) bitvector =
     (let mask = 2047;
          first2bytes = readUInt16BE e (i * 2);
          loc = mask AND first2bytes;
          byteLoc = drop_bit 3 loc;
          bitLoc = push_bit (loc mod 8) (1::nat);
          ix = byteSize - byteLoc - 1
      in add_loop e rest (bitvector[ix := (bitvector ! ix) OR of_nat bitLoc]))"

definition bloom_add :: "(buffer \<Rightarrow> buffer) \<Rightarrow> buffer \<Rightarrow> buffer \<Rightarrow> buffer" where
  "bloom_add hash e bitvector = add_loop (hash e) [0, 1, 2] bitvector"

text \<open>The loop of \<open>check\<close> runs while \<open>match\<close> is truthy, that is nonzero.\<close>

fun check_loop :: "buffer \<Rightarrow> nat list \<Rightarrow> buffer \<Rightarrow> bool" where
  "check_loop e [] bitvector = True"
| "check_loop e (i # rest) bitvector =
     (let mask = 511;
          first2bytes = readUInt16BE e (i * 2);
          loc = mask AND first2bytes;
          byteLoc = drop_bit 3 loc;
          bitLoc = push_bit (loc mod 8) (1::nat);
          match = (bitvector ! (byteSize - byteLoc - 1)) AND of_nat bitLoc
      in if match \<noteq> 0 then check_loop e rest bitvector else False)"

definition bloom_check :: "(buffer \<Rightarrow> buffer) \<Rightarrow> buffer \<Rightarrow> buffer \<Rightarrow> bool" where
  "bloom_check hash e bitvector = check_loop (hash e) [0, 1, 2] bitvector"

text \<open>
  \<open>or\<close> runs its index up to \<open>byteSize\<close> inclusive. Reading a Buffer past its end gives
  \<open>undefined\<close>, which \<open>|\<close> takes as 0, and writing past the end of a Buffer does
  nothing.
\<close>

definition buf_read :: "buffer \<Rightarrow> nat \<Rightarrow> byte" where
  "buf_read b i = (if i < length b then b ! i else 0)"

definition buf_write :: "buffer \<Rightarrow> nat \<Rightarrow> byte \<Rightarrow> buffer" where
  "buf_write b i v = (if i < length b then b[i := v] else b)"

fun or_loop :: "nat list \<Rightarrow> buffer \<Rightarrow> buffer \<Rightarrow> buffer" where
  "or_loop [] bitvector other = bitvector"
| "or_loop (i # rest) bitvector other =
     or_loop rest (buf_write bitvector i (buf_read bitvector i OR buf_read other i)) other"

definition bloom_or :: "buffer \<Rightarrow> buffer \<Rightarrow> buffer" where
  "bloom_or bitvector other = or_loop [0..<byteSize + 1] bitvector other"

section \<open>runBlock: processTransactions\<close>

text \<open>
  \<open>runTx\<close> is not part of the sources: it is a parameter, a function from the state of
  the VM and a transaction to the new state and either an error or a result with
  \<open>gasUsed\<close>, \<open>bloom\<close> and \<open>vm.logs\<close>. \<open>trieRoot\<close> reads \<open>trie.root\<close> in a state of the
  VM. The model gives the calls through \<open>this\<close> the receiver they are written for.
\<close>

record tx =
  tx_gasLimit :: int
  tx_data :: buffer

record txResult =
  tr_gasUsed :: int
  tr_bloom :: buffer
  tr_logs :: "buffer list"

record txReceipt =
  rcp_stateRoot :: buffer
  rcp_gasUsed :: int
  rcp_bitvector :: buffer
  rcp_logs :: "buffer list"

datatype block_error =
    TX_GAS_LIMIT_HIGHER_THAN_BLOCK
  | TX_ERROR vm_error
  | ASSIGNMENT_TO_CONSTANT

text \<open>
  The state of a block run: the state of the VM, and the variables of \<open>runBlock\<close> that
  \<open>processTx\<close> writes (\<open>receipts\<close> holds \<open>null\<close>, here \<open>None\<close>, for a failed transaction;
  \<open>receiptTrie\<close> is keyed by the number whose RLP encoding is the key).
\<close>

record 'vm blockRun =
  br_vm :: 'vm
  br_gasUsed :: int
  br_bloom :: buffer
  br_headerBloom :: buffer
  receipts :: "txReceipt option list"
  txResults :: "txResult option list"
  receiptTrie :: "nat \<rightharpoonup> txReceipt"

text \<open>
  \<open>validReceiptCount\<close> is declared with \<open>const\<close>. The statement \<open>validReceiptCount++\<close>
  assigns to it, and an assignment to a \<open>const\<close> binding raises a TypeError.
\<close>

definition validReceiptCount :: nat where
  "validReceiptCount = 0"

definition increment_const :: "nat \<Rightarrow> block_error + nat" where
  "increment_const n = Inl ASSIGNMENT_TO_CONSTANT"

definition processTx ::
  "('vm \<Rightarrow> tx \<Rightarrow> 'vm \<times> (vm_error + txResult)) \<Rightarrow> ('vm \<Rightarrow> buffer) \<Rightarrow> bool \<Rightarrow> int
     \<Rightarrow> tx \<Rightarrow> 'vm blockRun \<Rightarrow> (block_error \<times> 'vm blockRun) + 'vm blockRun" where
  "processTx runTx trieRoot generateStateRoot blockGasLimit t st =
     (if blockGasLimit < tx_gasLimit t + br_gasUsed st
      then Inl (TX_GAS_LIMIT_HIGHER_THAN_BLOCK, st)
      else
        (case runTx (br_vm st) t of
           (vm1, Inl err) \<Rightarrow>
             Inl (TX_ERROR err,
                  st\<lparr>br_vm := vm1, txResults := txResults st @ [None],
                     receipts := receipts st @ [None]\<rparr>)
         | (vm1, Inr result) \<Rightarrow>
             (let st1 = st\<lparr>br_vm := vm1, txResults := txResults st @ [Some result]\<rparr>;
                  st2 = st1\<lparr>br_gasUsed := br_gasUsed st1 + tr_gasUsed result\<rparr>;
                  st3 = st2\<lparr>br_bloom := bloom_or (br_bloom st2) (tr_bloom result)\<rparr>;
                  st4 = (if generateStateRoot then st3\<lparr>br_headerBloom := br_bloom st3\<rparr>
                         else st3);
                  txReceipt = \<lparr>rcp_stateRoot = trieRoot vm1, rcp_gasUsed = br_gasUsed st4,
                                rcp_bitvector = tr_bloom result, rcp_logs = tr_logs result\<rparr>;
                  st5 = st4\<lparr>receipts := receipts st4 @ [Some txReceipt]\<rparr>;
                  st6 = st5\<lparr>receiptTrie := (receiptTrie st5)(validReceiptCount \<mapsto> txReceipt)\<rparr>
              in case increment_const validReceiptCount of
                   Inl e \<Rightarrow> Inl (e, st6)
                 | Inr n \<Rightarrow> Inr st6)))"

text \<open>\<open>async.eachSeries\<close>: one transaction after the other, until one fails.\<close>

fun processTransactions ::
  "('vm \<Rightarrow> tx \<Rightarrow> 'vm \<times> (vm_error + txResult)) \<Rightarrow> ('vm \<Rightarrow> buffer) \<Rightarrow> bool \<Rightarrow> int
     \<Rightarrow> tx list \<Rightarrow> 'vm blockRun \<Rightarrow> (block_error \<times> 'vm blockRun) + 'vm blockRun" where
  "processTransactions runTx trieRoot generateStateRoot blockGasLimit [] st = Inr st"
| "processTransactions runTx trieRoot generateStateRoot blockGasLimit (t # ts) st =
     (case processTx runTx trieRoot generateStateRoot blockGasLimit t st of
        Inl e \<Rightarrow> Inl e
      | Inr st1 \<Rightarrow> processTransactions runTx trieRoot generateStateRoot blockGasLimit ts st1)"


section \<open>Concrete inputs\<close>

text \<open>
  The inputs of the evaluations below: a contract at \<open>address1\<close> with a balance of 1000,
  called by \<open>address2\<close> with a call value of 7; a state manager that holds the account in
  its cache and in its trie; an instance of the external functions; a state manager
  whose storage holds the byte 1 in slot 0 of the contract, and one into which
  \<open>putContractStorage\<close> has put the byte 0 there; the results of an init code that
  returned two bytes for 100 gas, and of one that returned 335545 bytes for 300000
  gas; a \<open>runTx\<close> that always succeeds, and a block run that has not started.
\<close>

definition address1 :: address where
  "address1 = replicate 20 1"

definition address2 :: address where
  "address2 = replicate 20 2"

definition account1 :: account where
  "account1 = \<lparr>nonce = 1, balance = 1000, stateRoot = SHA3_RLP, codeHash = SHA3_NULL,
     acc_exists = True\<rparr>"

definition frame0 :: runState where
  "frame0 = \<lparr>rs_address = address1, rs_caller = address2, rs_origin = address2,
     rs_callValue = 7, rs_callData = [], rs_gasPrice = 1, gasLeft = 10000, gasRefund = 0,
     stack = [], memory = [], memoryWordCount = 0, highestMemCost = 0, rs_depth = 0,
     contract = account1\<rparr>"

definition sm0 :: stateManager where
  "sm0 = \<lparr>cache = [address1 \<mapsto> \<lparr>val = account1, modified = False, en_exists = True\<rparr>],
     checkpoints = [], deletes = [], trie = [address1 \<mapsto> account1], trieCheckpoints = [],
     storageTries = Map.empty, storageDb = Map.empty, codeDb = Map.empty\<rparr>"

definition env0 :: env where
  "env0 = \<lparr>sha3 = (\<lambda>b. b), rootOf = (\<lambda>st. []), generateAddress = (\<lambda>a n. a),
     isPrecompiled = (\<lambda>a. False)\<rparr>"

definition sm_slot :: stateManager where
  "sm_slot = sm0\<lparr>storageTries := [address1 \<mapsto> [be_bytes 32 0 \<mapsto> [1]]]\<rparr>"

definition sm_zero :: stateManager where
  "sm_zero = putContractStorage env0 sm0 address1 (be_bytes 32 0) [0]"

definition results_big :: vmResults where
  "results_big = \<lparr>vr_return = replicate 335545 0, vr_gasUsed = 300000, vr_exception = 1,
     vr_exceptionError = None, vr_logs = []\<rparr>"

definition results0 :: vmResults where
  "results0 = \<lparr>vr_return = [0x60, 0x00], vr_gasUsed = 100, vr_exception = 1,
     vr_exceptionError = None, vr_logs = []\<rparr>"

definition runTx0 :: "nat \<Rightarrow> tx \<Rightarrow> nat \<times> (vm_error + txResult)" where
  "runTx0 vm t = (Suc vm, Inr \<lparr>tr_gasUsed = 21000, tr_bloom = zeros byteSize, tr_logs = []\<rparr>)"

definition blockRun0 :: "nat blockRun" where
  "blockRun0 = \<lparr>br_vm = 0, br_gasUsed = 0, br_bloom = zeros byteSize,
     br_headerBloom = zeros byteSize, receipts = [], txResults = [], receiptTrie = Map.empty\<rparr>"

definition tx0 :: tx where
  "tx0 = \<lparr>tx_gasLimit = 21000, tx_data = []\<rparr>"

section \<open>Checkpoint and revert\<close>

lemma getOrLoad_frame:
  "getOrLoad sm a = (sm1, acct) \<Longrightarrow>
   checkpoints sm1 = checkpoints sm \<and> deletes sm1 = deletes sm \<and> trie sm1 = trie sm
   \<and> trieCheckpoints sm1 = trieCheckpoints sm \<and> storageTries sm1 = storageTries sm
   \<and> storageDb sm1 = storageDb sm \<and> codeDb sm1 = codeDb sm"
  by (auto simp: getOrLoad_def cacheUpdate_def split: option.splits prod.splits)

lemma putAccount_frame:
  "checkpoints (putAccount sm a acct) = checkpoints sm
   \<and> deletes (putAccount sm a acct) = deletes sm
   \<and> trie (putAccount sm a acct) = trie sm
   \<and> trieCheckpoints (putAccount sm a acct) = trieCheckpoints sm
   \<and> storageTries (putAccount sm a acct) = storageTries sm
   \<and> storageDb (putAccount sm a acct) = storageDb sm
   \<and> codeDb (putAccount sm a acct) = codeDb sm"
  by (simp add: putAccount_def cache_put_def cacheUpdate_def split: option.splits)

lemma putContractCode_frame:
  "checkpoints (putContractCode ev sm a c) = checkpoints sm
   \<and> deletes (putContractCode ev sm a c) = deletes sm
   \<and> trie (putContractCode ev sm a c) = trie sm
   \<and> trieCheckpoints (putContractCode ev sm a c) = trieCheckpoints sm
   \<and> storageTries (putContractCode ev sm a c) = storageTries sm
   \<and> storageDb (putContractCode ev sm a c) = storageDb sm"
proof -
  obtain sm1 acct where g: "getOrLoad sm a = (sm1, acct)" by (cases "getOrLoad sm a")
  from getOrLoad_frame [OF g] g show ?thesis
    by (simp add: putContractCode_def getAccount_def putAccount_frame Let_def)
qed

lemma getStorageTrie_frame:
  "getStorageTrie sm a = (sm1, st) \<Longrightarrow>
   checkpoints sm1 = checkpoints sm \<and> deletes sm1 = deletes sm \<and> trie sm1 = trie sm
   \<and> trieCheckpoints sm1 = trieCheckpoints sm"
  by (auto simp: getStorageTrie_def lookupStorageTrie_def getAccount_def
      split: option.splits prod.splits dest: getOrLoad_frame)

lemma putContractStorage_frame:
  "checkpoints (putContractStorage ev sm a key v) = checkpoints sm
   \<and> deletes (putContractStorage ev sm a key v) = deletes sm
   \<and> trie (putContractStorage ev sm a key v) = trie sm
   \<and> trieCheckpoints (putContractStorage ev sm a key v) = trieCheckpoints sm"
proof -
  obtain sm1 st where g: "getStorageTrie sm a = (sm1, st)" by (cases "getStorageTrie sm a")
  from getStorageTrie_frame [OF g] g show ?thesis
    by (simp add: putContractStorage_def putAccount_frame Let_def)
qed

lemma apply_op_frame:
  "checkpoints (apply_op ev sm x) = checkpoints sm
   \<and> deletes (apply_op ev sm x) = deletes sm @ deleted [x]
   \<and> trie (apply_op ev sm x) = trie sm
   \<and> trieCheckpoints (apply_op ev sm x) = trieCheckpoints sm"
proof (cases x)
  case (PutAccount a acct)
  then show ?thesis by (simp add: putAccount_frame)
next
  case (PutAccountBalance a b)
  obtain sm1 acct where g: "getOrLoad sm a = (sm1, acct)" by (cases "getOrLoad sm a")
  from getOrLoad_frame [OF g] PutAccountBalance g show ?thesis
    by (simp add: putAccountBalance_def getAccount_def putAccount_frame)
next
  case (PutContractCode a c)
  then show ?thesis by (simp add: putContractCode_frame)
next
  case (PutContractStorage a key v)
  then show ?thesis by (simp add: putContractStorage_frame)
next
  case (DelAccount a)
  then show ?thesis by (simp add: cache_del_def)
qed

lemma apply_op_storage:
  "\<not> storage_write x \<Longrightarrow>
   storageTries (apply_op ev sm x) = storageTries sm
   \<and> storageDb (apply_op ev sm x) = storageDb sm"
proof (cases x)
  case (PutAccount a acct)
  then show ?thesis by (simp add: putAccount_frame)
next
  case (PutAccountBalance a b)
  obtain sm1 acct where g: "getOrLoad sm a = (sm1, acct)" by (cases "getOrLoad sm a")
  from getOrLoad_frame [OF g] PutAccountBalance g show ?thesis
    by (simp add: putAccountBalance_def getAccount_def putAccount_frame)
next
  case (PutContractCode a c)
  then show ?thesis by (simp add: putContractCode_frame)
next
  case (PutContractStorage a key v)
  assume "\<not> storage_write x"
  with PutContractStorage show ?thesis by simp
next
  case (DelAccount a)
  then show ?thesis by (simp add: cache_del_def)
qed

lemma deleted_append: "deleted (xs @ ys) = deleted xs @ deleted ys"
  by (induction xs rule: deleted.induct) simp_all

lemma apply_ops_frame:
  "checkpoints (apply_ops ev sm xs) = checkpoints sm
   \<and> deletes (apply_ops ev sm xs) = deletes sm @ deleted xs
   \<and> trie (apply_ops ev sm xs) = trie sm
   \<and> trieCheckpoints (apply_ops ev sm xs) = trieCheckpoints sm"
proof (induction xs arbitrary: sm)
  case Nil
  show ?case by simp
next
  case (Cons x xs)
  have "deleted (x # xs) = deleted [x] @ deleted xs"
    using deleted_append [of "[x]" xs] by simp
  with Cons [of "apply_op ev sm x"] apply_op_frame [of ev sm x] show ?case
    by simp
qed

lemma apply_ops_storage:
  "\<forall>x\<in>set xs. \<not> storage_write x \<Longrightarrow>
   storageTries (apply_ops ev sm xs) = storageTries sm
   \<and> storageDb (apply_ops ev sm xs) = storageDb sm"
proof (induction xs arbitrary: sm)
  case Nil
  show ?case by simp
next
  case (Cons x xs)
  from Cons.prems have "\<not> storage_write x" and "\<forall>y\<in>set xs. \<not> storage_write y"
    by simp_all
  with Cons.IH [of "apply_op ev sm x"] apply_op_storage [of x ev sm] show ?case
    by simp
qed

lemma fold_delete_keep:
  "t a = None \<Longrightarrow> fold (\<lambda>a t. t(a := None)) ds t a = None"
  by (induction ds arbitrary: t) simp_all

lemma fold_delete: "a \<in> set ds \<Longrightarrow> fold (\<lambda>a t. t(a := None)) ds t a = None"
proof (induction ds arbitrary: t)
  case Nil
  then show ?case by simp
next
  case (Cons d ds)
  have step: "fold (\<lambda>a t. t(a := None)) (d # ds) t a
      = fold (\<lambda>a t. t(a := None)) ds (t(d := None)) a"
    by simp
  show ?case
  proof (cases "a = d")
    case True
    then have "(t(d := None)) a = None" by simp
    then have "fold (\<lambda>a t. t(a := None)) ds (t(d := None)) a = None"
      by (rule fold_delete_keep)
    with step show ?thesis by (simp only:)
  next
    case False
    with Cons.prems have "a \<in> set ds" by simp
    then have "fold (\<lambda>a t. t(a := None)) ds (t(d := None)) a = None"
      by (rule Cons.IH)
    with step show ?thesis by (simp only:)
  qed
qed

text \<open>
  C1, as the code has it. Whatever accounts are written and deleted between a
  \<open>checkpoint\<close> and the matching \<open>revert\<close>, the revert succeeds and restores the entries
  of the cache, both checkpoint stacks and the trie. The storage tries and the storage
  database are as before the checkpoint when none of the writes is a storage write
  (\<open>revert\<close> does not touch \<open>_storageTries\<close>). The pending deletions are not restored:
  \<open>del\<close> appends to \<open>_deletes\<close>, which no checkpoint records, so after the revert the
  list is the one before the checkpoint followed by the addresses deleted in between.
  When the restored cache is not empty, a flush then succeeds and leaves none of these
  addresses in the trie; on an empty cache the flush raises a TypeError.
\<close>

theorem checkpoint_revert_keeps_deletes:
  "\<exists>sm1. sm_revert (apply_ops ev (sm_checkpoint sm) ops) = Some sm1
     \<and> cache sm1 = cache sm \<and> checkpoints sm1 = checkpoints sm
     \<and> trie sm1 = trie sm \<and> trieCheckpoints sm1 = trieCheckpoints sm
     \<and> deletes sm1 = deletes sm @ deleted ops
     \<and> ((\<forall>x\<in>set ops. \<not> storage_write x)
          \<longrightarrow> storageTries sm1 = storageTries sm \<and> storageDb sm1 = storageDb sm)
     \<and> (cache sm \<noteq> Map.empty
          \<longrightarrow> (\<exists>sm2. cache_flush sm1 = Inr sm2
                \<and> (\<forall>a\<in>set (deletes sm @ deleted ops). trie sm2 a = None)))
     \<and> (cache sm = Map.empty \<longrightarrow> cache_flush sm1 = Inl TypeError)"
proof -
  let ?c = "sm_checkpoint sm"
  let ?w = "apply_ops ev ?c ops"
  let ?r = "?w\<lparr>trie := trie sm, trieCheckpoints := trieCheckpoints sm,
               cache := cache sm, checkpoints := checkpoints sm\<rparr>"
  have c: "checkpoints ?c = checkpoints sm @ [cache sm]" "deletes ?c = deletes sm"
    "trie ?c = trie sm" "trieCheckpoints ?c = trieCheckpoints sm @ [trie sm]"
    "storageTries ?c = storageTries sm" "storageDb ?c = storageDb sm"
    by (simp_all add: sm_checkpoint_def trie_checkpoint_def cache_checkpoint_def)
  from apply_ops_frame [of ev ?c ops] c
  have w: "checkpoints ?w = checkpoints sm @ [cache sm]"
    "deletes ?w = deletes sm @ deleted ops"
    "trieCheckpoints ?w = trieCheckpoints sm @ [trie sm]"
    by simp_all
  then have r: "sm_revert ?w = Some ?r"
    by (simp add: sm_revert_def trie_revert_def cache_revert_def)
  have st: "storageTries ?r = storageTries sm \<and> storageDb ?r = storageDb sm"
    if "\<forall>x\<in>set ops. \<not> storage_write x"
    using apply_ops_storage [OF that, of ev ?c] c by simp
  have fl: "\<exists>sm2. cache_flush ?r = Inr sm2
      \<and> (\<forall>a\<in>set (deletes sm @ deleted ops). trie sm2 a = None)"
    if "cache sm \<noteq> Map.empty"
  proof -
    let ?written = "\<lambda>k. case cache ?r k of
        Some it \<Rightarrow> if modified it then Some (val it) else trie ?r k
      | None \<Rightarrow> trie ?r k"
    let ?t = "fold (\<lambda>a t. t(a := None)) (deletes sm @ deleted ops) ?written"
    have d: "deletes ?r = deletes sm @ deleted ops"
      using w(2) by simp
    have "cache ?r \<noteq> Map.empty"
      using that by simp
    then have "\<exists>sm2. cache_flush ?r = Inr sm2 \<and> trie sm2 = ?t"
      unfolding cache_flush_def Let_def d by simp
    then obtain sm2 where f: "cache_flush ?r = Inr sm2" and t: "trie sm2 = ?t"
      by blast
    have "\<forall>a\<in>set (deletes sm @ deleted ops). trie sm2 a = None"
      unfolding t by (intro ballI fold_delete)
    with f show ?thesis
      by blast
  qed
  have fe: "cache_flush ?r = Inl TypeError" if "cache sm = Map.empty"
    using that by (simp add: cache_flush_def)
  from r st fl fe w(2) show ?thesis
    by simp
qed

text \<open>
  An instance of C1: a balance write, a code write and a deletion between the checkpoint
  and the revert. The deleted address stays pending and the flush removes it from the
  trie.
\<close>

theorem checkpoint_revert_keeps_deletes_witness:
  "\<exists>sm1. sm_revert (apply_ops env0 (sm_checkpoint sm0)
       [PutAccountBalance address2 5, PutContractCode address2 [0x60], DelAccount address1])
       = Some sm1
     \<and> cache sm1 = cache sm0 \<and> deletes sm1 = [address1]
     \<and> storageTries sm1 = storageTries sm0
     \<and> (\<exists>sm2. cache_flush sm1 = Inr sm2 \<and> trie sm2 address1 = None)"
proof -
  have "cache sm0 \<noteq> Map.empty"
    by (simp add: sm0_def)
  with checkpoint_revert_keeps_deletes [of env0 sm0
      "[PutAccountBalance address2 5, PutContractCode address2 [0x60], DelAccount address1]"]
  show ?thesis
    by (auto simp: sm0_def)
qed

text \<open>
  C1, as the claim states it, fails: the state after the revert is not the state before
  the checkpoint. Deleting the account at \<open>address1\<close> between the two leaves the address
  among the pending deletions, and the next flush removes from the trie an account
  that a flush before the checkpoint would have kept. A storage write is not undone
  either: slot 0 of the contract is empty before the checkpoint and holds the byte 5
  after the revert.
\<close>

theorem checkpoint_revert_not_identity:
  "sm_revert (apply_ops env0 (sm_checkpoint sm0) [DelAccount address1]) \<noteq> Some sm0
   \<and> sm_revert (apply_ops env0 (sm_checkpoint sm0) [DelAccount address1])
       = Some (sm0\<lparr>deletes := [address1]\<rparr>)
   \<and> cache_flush sm0 = Inr sm0
   \<and> cache_flush (sm0\<lparr>deletes := [address1]\<rparr>) = Inr (sm0\<lparr>trie := Map.empty\<rparr>)
   \<and> snd (getContractStorage sm0 address1 (be_bytes 32 0)) = []
   \<and> (case sm_revert (apply_ops env0 (sm_checkpoint sm0)
                [PutContractStorage address1 (be_bytes 32 0) [5]]) of
         Some sm1 \<Rightarrow> snd (getContractStorage sm1 address1 (be_bytes 32 0)) = [5]
       | None \<Rightarrow> False)"
proof -
  have r: "sm_revert (apply_ops env0 (sm_checkpoint sm0) [DelAccount address1])
       = Some (sm0\<lparr>deletes := [address1]\<rparr>)"
    by (simp add: sm_revert_def trie_revert_def cache_revert_def sm_checkpoint_def
        trie_checkpoint_def cache_checkpoint_def cache_del_def sm0_def)
  have ne: "sm0\<lparr>deletes := [address1]\<rparr> \<noteq> sm0"
  proof
    assume "sm0\<lparr>deletes := [address1]\<rparr> = sm0"
    then have "deletes (sm0\<lparr>deletes := [address1]\<rparr>) = deletes sm0" by simp
    then show False by (simp add: sm0_def)
  qed
  have nonempty: "cache sm0 \<noteq> Map.empty"
    by (simp add: sm0_def)
  have f0: "cache_flush sm0 = Inr sm0"
    using nonempty by (auto simp: cache_flush_def sm0_def fun_eq_iff)
  have f1: "cache_flush (sm0\<lparr>deletes := [address1]\<rparr>) = Inr (sm0\<lparr>trie := Map.empty\<rparr>)"
    using nonempty by (auto simp: cache_flush_def sm0_def fun_eq_iff)
  have s0: "snd (getContractStorage sm0 address1 (be_bytes 32 0)) = []"
    by (simp add: getContractStorage_def getStorageTrie_def lookupStorageTrie_def
        getAccount_def getOrLoad_def cache_lookup_def sm0_def)
  have s1: "(case sm_revert (apply_ops env0 (sm_checkpoint sm0)
                [PutContractStorage address1 (be_bytes 32 0) [5]]) of
         Some sm1 \<Rightarrow> snd (getContractStorage sm1 address1 (be_bytes 32 0)) = [5]
       | None \<Rightarrow> False)"
    by (simp add: sm_revert_def trie_revert_def cache_revert_def sm_checkpoint_def
        trie_checkpoint_def cache_checkpoint_def putContractStorage_def
        getContractStorage_def getStorageTrie_def lookupStorageTrie_def getAccount_def
        getOrLoad_def cache_lookup_def putAccount_def cache_put_def cacheUpdate_def
        sm0_def Let_def)
  from r ne f0 f1 s0 s1 show ?thesis by simp
qed

section \<open>Memory expansion\<close>

text \<open>
  C3. The claim: an access with a nonzero length sets the word count to the ceiling of
  (offset + length) / 32 and charges c(new) - c(old). The code divides with \<open>divn\<close>, which
  rounds down: the access of the single byte at offset 0 touches one word, yet the word
  count stays 0 and nothing is charged.
\<close>

theorem subMemUsage_rounds_down:
  "subMemUsage frame0 0 1 = Inr frame0
   \<and> memoryWordCount frame0 = 0 \<and> (0 + 1 + 31) div 32 = (1::int)"
  by (simp add: subMemUsage_def js_not_object_def bn_div_def frame0_def)

text \<open>
  C4. The claim: an access of length 0 changes neither the word count, nor the highest
  memory cost, nor the gas left. The guard meant to do this never fires, since the
  length is a BN object: a zero-length access at offset 64 of a fresh frame sets the
  word count to 2 and charges 6 gas.
\<close>

theorem subMemUsage_zero_length_charges:
  "subMemUsage frame0 64 0
     = Inr (frame0\<lparr>memoryWordCount := 2, gasLeft := 9994, highestMemCost := 6\<rparr>)"
  by (simp add: subMemUsage_def js_not_object_def bn_div_def memCost_def subGas_def
      memoryGas_def quadCoeffDiv_def frame0_def)

section \<open>Environment opcodes\<close>

text \<open>
  C10. \<open>CALLDATASIZE\<close> is 0 on the call data that is the single byte 0x00 and the byte
  length on every other call data, so that call data and the empty one give the same
  result.
\<close>

theorem CALLDATASIZE_single_zero_byte:
  "CALLDATASIZE (s\<lparr>rs_callData := [0]\<rparr>) = 0
   \<and> (cd \<noteq> [0] \<longrightarrow> CALLDATASIZE (s\<lparr>rs_callData := cd\<rparr>) = int (length cd))
   \<and> CALLDATASIZE (s\<lparr>rs_callData := [0]\<rparr>) = CALLDATASIZE (s\<lparr>rs_callData := []\<rparr>)"
proof -
  have "length cd = 1 \<and> cd ! 0 = 0 \<longleftrightarrow> cd = [0]"
    by (cases cd) auto
  then show ?thesis
    by (auto simp: CALLDATASIZE_def)
qed

theorem CALLDATASIZE_single_zero_byte_witness:
  "CALLDATASIZE (frame0\<lparr>rs_callData := [0]\<rparr>) = 0
   \<and> [7, 0] \<noteq> [0::byte] \<and> CALLDATASIZE (frame0\<lparr>rs_callData := [7, 0]\<rparr>) = 2
   \<and> CALLDATASIZE (frame0\<lparr>rs_callData := [0]\<rparr>) = CALLDATASIZE (frame0\<lparr>rs_callData := []\<rparr>)"
  using CALLDATASIZE_single_zero_byte [of frame0 "[7, 0]"] by simp

section \<open>SSTORE\<close>

lemma unpad_Nil_iff: "unpad bs = [] \<longleftrightarrow> (\<forall>b\<in>set bs. b = 0)"
  by (simp add: unpad_def dropWhile_eq_Nil_conv)

lemma byte_of_int_zero: "(word_of_int v :: byte) = 0 \<longleftrightarrow> v mod 256 = 0"
  by (simp add: word_of_int_eq_0_iff dvd_eq_mod_eq_0)

lemma be_bytes_all_zero:
  "0 \<le> v \<Longrightarrow> v < 256 ^ n \<Longrightarrow> (\<forall>b\<in>set (be_bytes n v). b = 0) \<longleftrightarrow> v = 0"
proof (induction n arbitrary: v)
  case 0
  then show ?case by simp
next
  case (Suc n)
  define m :: int where "m = 256 ^ n"
  from Suc.prems have "0 \<le> v" "v < 256 * m" by (simp_all add: m_def)
  then have "0 \<le> v div 256" "v div 256 < m" by presburger+
  then have d: "0 \<le> v div 256" "v div 256 < 256 ^ n" by (simp_all add: m_def)
  have "(\<forall>b\<in>set (be_bytes (Suc n) v). b = 0)
      \<longleftrightarrow> (\<forall>b\<in>set (be_bytes n (v div 256)). b = 0) \<and> (word_of_int v :: byte) = 0"
    by auto
  also have "\<dots> \<longleftrightarrow> v div 256 = 0 \<and> v mod 256 = 0"
    by (simp only: Suc.IH [OF d] byte_of_int_zero)
  also have "\<dots> \<longleftrightarrow> v = 0"
  proof
    assume "v div 256 = 0 \<and> v mod 256 = 0"
    then show "v = 0"
      using div_mult_mod_eq [of v 256] by simp
  next
    assume "v = 0"
    then show "v div 256 = 0 \<and> v mod 256 = 0" by simp
  qed
  finally show ?case .
qed

lemma foldl_be_ge: "0 \<le> n \<Longrightarrow> n \<le> foldl (\<lambda>n b. n * 256 + uint (b::byte)) n bs"
proof (induction bs arbitrary: n)
  case Nil
  show ?case by simp
next
  case (Cons b bs)
  have "n \<le> n * 256 + uint b" using Cons.prems by simp
  moreover have "n * 256 + uint b \<le> foldl (\<lambda>n b. n * 256 + uint b) (n * 256 + uint b) bs"
    using Cons.prems by (intro Cons.IH) simp
  ultimately show ?case by simp
qed

lemma be_int_unpadded: "unpad bs = bs \<Longrightarrow> bs \<noteq> [] \<Longrightarrow> be_int bs \<noteq> 0"
proof (cases bs)
  case Nil
  assume "bs \<noteq> []" with Nil show ?thesis by simp
next
  case (Cons b rest)
  assume u: "unpad bs = bs"
  have "b \<noteq> 0"
  proof
    assume "b = 0"
    with u Cons have "dropWhile (\<lambda>b. b = 0) rest = b # rest" by (simp add: unpad_def)
    then have "length (dropWhile (\<lambda>b. b = 0) rest) = Suc (length rest)" by simp
    moreover have "length (dropWhile (\<lambda>b. b = 0) rest) \<le> length rest"
      by (rule length_dropWhile_le)
    ultimately show False by simp
  qed
  then have "uint b \<noteq> 0" by (simp add: unsigned_eq_0_iff)
  moreover have "0 \<le> uint b" by simp
  ultimately have "0 < uint b" by linarith
  moreover have "uint b \<le> foldl (\<lambda>n b. n * 256 + uint b) (uint b) rest"
    by (rule foldl_be_ge) simp
  ultimately show ?thesis using Cons by (simp add: be_int_def)
qed

lemma unpad_zero_word: "unpad (be_bytes 32 0) = []"
proof -
  have "(\<forall>b\<in>set (be_bytes 32 0). b = 0) \<longleftrightarrow> (0::int) = 0"
    by (rule be_bytes_all_zero) simp_all
  then have "\<forall>b\<in>set (be_bytes 32 0). b = 0"
    by (rule iffD2) (rule refl)
  then show ?thesis
    by (simp only: unpad_Nil_iff)
qed


lemma toArrayLike_fits:
  "0 \<le> v \<Longrightarrow> v < 256 ^ n \<Longrightarrow> toArrayLike n v = Inr (be_bytes n v)"
  by (simp add: toArrayLike_def)

lemma unpad_idem: "unpad (unpad bs) = unpad bs"
  by (simp add: unpad_def dropWhile_idem)

lemma putContractStorage_read_back:
  "snd (getContractStorage (putContractStorage ev sm a key v) a key) = v"
proof -
  obtain sm1 st where g: "getStorageTrie sm a = (sm1, st)" by (cases "getStorageTrie sm a")
  then show ?thesis
    by (simp add: putContractStorage_def getContractStorage_def getStorageTrie_def
        putAccount_def cache_put_def cacheUpdate_def Let_def split: option.splits)
qed

lemma SSTORE_result:
  assumes key: "0 \<le> key" "key < 2 ^ 256"
    and v: "0 \<le> v" "v < 2 ^ 256"
    and found: "getContractStorage sm (rs_address s) (be_bytes 32 key) = (sm1, found)"
  shows "SSTORE ev key v s sm =
     (let cost = (if v \<noteq> 0 \<and> found = [] then sstoreSetGas else sstoreResetGas);
          refund = (if v = 0 \<and> found \<noteq> [] then sstoreRefundGas else 0);
          sm2 = putContractStorage ev sm1 (rs_address s) (be_bytes 32 key) (unpad (be_bytes 32 v))
      in if gasLeft s < cost
         then Inl (OUT_OF_GAS, s\<lparr>gasLeft := gasLeft s - cost\<rparr>, sm1)
         else Inr (s\<lparr>gasLeft := gasLeft s - cost, gasRefund := gasRefund s + refund,
                     contract := cache_get sm2 (rs_address s)\<rparr>, sm2))"
proof -
  have k: "toArrayLike 32 key = Inr (be_bytes 32 key)"
    using key by (intro toArrayLike_fits) simp_all
  have p: "toArrayLike 32 v = Inr (be_bytes 32 v)"
    using v by (intro toArrayLike_fits) simp_all
  have "v < 256 ^ 32" using v by simp
  with v have v0: "unpad (be_bytes 32 v) = [] \<longleftrightarrow> v = 0"
    by (simp only: unpad_Nil_iff be_bytes_all_zero)
  show ?thesis
  proof (cases "v = 0")
    case True
    with unpad_zero_word k p found show ?thesis
      by (simp add: SSTORE_def subGas_def Let_def)
  next
    case False
    with v0 k p found show ?thesis
      by (simp add: SSTORE_def subGas_def Let_def)
  qed
qed

lemma SLOAD_result:
  assumes "0 \<le> key" "key < 2 ^ 256"
    and "getContractStorage sm (rs_address s) (be_bytes 32 key) = (sm1, found)"
  shows "SLOAD key s sm = Inr (sm1, if found \<noteq> [] then be_int found else 0)"
proof -
  have "toArrayLike 32 key = Inr (be_bytes 32 key)"
    using assms(1,2) by (intro toArrayLike_fits) simp_all
  with assms(3) show ?thesis
    by (simp add: SLOAD_def)
qed

text \<open>
  C5, as the code has it. SSTORE of the value \<open>v\<close> at the key \<open>key\<close> (256-bit words)
  prices by the bytes \<open>found\<close> in the slot, not by the number \<open>w\<close> that SLOAD reads from
  them: it charges \<open>sstoreSetGas\<close> when \<open>v\<close> is not 0 and the slot holds no byte, and
  \<open>sstoreResetGas\<close> in the three other cases; it adds \<open>sstoreRefundGas\<close> to the refund
  when \<open>v\<close> is 0 and the slot holds a byte, and nothing otherwise. With less gas than
  the charge the opcode traps with OUT_OF_GAS, stores nothing and adds no refund.
  The bytes SSTORE stores have no leading zero byte, and for a slot whose bytes have
  none, \<open>w\<close> is 0 exactly when the slot holds no byte: there the charge and the refund
  are those of the table of the claim.
\<close>

theorem SSTORE_gas_and_refund:
  assumes key: "0 \<le> key" "key < 2 ^ 256"
    and v: "0 \<le> v" "v < 2 ^ 256"
    and found: "getContractStorage sm (rs_address s) (be_bytes 32 key) = (sm1, found)"
  shows "SSTORE ev key v s sm =
     (let cost = (if v \<noteq> 0 \<and> found = [] then sstoreSetGas else sstoreResetGas);
          refund = (if v = 0 \<and> found \<noteq> [] then sstoreRefundGas else 0);
          sm2 = putContractStorage ev sm1 (rs_address s) (be_bytes 32 key) (unpad (be_bytes 32 v))
      in if gasLeft s < cost
         then Inl (OUT_OF_GAS, s\<lparr>gasLeft := gasLeft s - cost\<rparr>, sm1)
         else Inr (s\<lparr>gasLeft := gasLeft s - cost, gasRefund := gasRefund s + refund,
                     contract := cache_get sm2 (rs_address s)\<rparr>, sm2))
   \<and> snd (getContractStorage
           (putContractStorage ev sm1 (rs_address s) (be_bytes 32 key) (unpad (be_bytes 32 v)))
           (rs_address s) (be_bytes 32 key)) = unpad (be_bytes 32 v)
   \<and> unpad (unpad (be_bytes 32 v)) = unpad (be_bytes 32 v)
   \<and> (\<exists>w. SLOAD key s sm = Inr (sm1, w)
          \<and> (unpad found = found \<longrightarrow> (w = 0 \<longleftrightarrow> found = [])))"
proof -
  let ?w = "if found \<noteq> [] then be_int found else 0"
  have "unpad found = found \<longrightarrow> (?w = 0 \<longleftrightarrow> found = [])"
    using be_int_unpadded [of found] by auto
  with SLOAD_result [OF key found]
  have "\<exists>w. SLOAD key s sm = Inr (sm1, w)
          \<and> (unpad found = found \<longrightarrow> (w = 0 \<longleftrightarrow> found = []))"
    by blast
  with SSTORE_result [OF key v found, of ev] show ?thesis
    by (simp only: putContractStorage_read_back unpad_idem simp_thms)
qed

text \<open>
  An instance of C5, the third scenario of the spec: the slot 0 holds 1 and 0 is stored
  into it. The opcode charges 5000 and the refund is 15000.
\<close>

theorem SSTORE_gas_and_refund_witness:
  "getContractStorage sm_slot (rs_address frame0) (be_bytes 32 0) = (sm_slot, [1])
   \<and> SLOAD 0 frame0 sm_slot = Inr (sm_slot, 1)
   \<and> (case SSTORE env0 0 0 frame0 sm_slot of
         Inl e \<Rightarrow> False
       | Inr (s1, sm1) \<Rightarrow> gasLeft s1 = 5000 \<and> gasRefund s1 = 15000)"
proof -
  have g: "getContractStorage sm_slot (rs_address frame0) (be_bytes 32 0) = (sm_slot, [1])"
    by (simp add: getContractStorage_def getStorageTrie_def sm_slot_def frame0_def)
  have b: "(0::int) \<le> 0" "(0::int) < 2 ^ 256"
    by simp_all
  have l: "SLOAD 0 frame0 sm_slot = Inr (sm_slot, 1)"
    using SLOAD_result [OF b g] by (simp add: be_int_def)
  from SSTORE_gas_and_refund [OF b b g, of env0] g l show ?thesis
    by (simp add: Let_def sstoreResetGas_def sstoreRefundGas_def frame0_def)
qed

text \<open>
  C5, as the claim states it, fails on a slot whose bytes are the single byte 0, which
  \<open>putContractStorage\<close> stores as it stands. SLOAD reads \<open>w = 0\<close> there; yet storing 0
  adds the refund of 15000, where the claim says none, and storing 7 charges 5000,
  where the claim says 20000.
\<close>

theorem SSTORE_zero_bytes_slot:
  "getContractStorage sm_zero (rs_address frame0) (be_bytes 32 0) = (sm_zero, [0])
   \<and> SLOAD 0 frame0 sm_zero = Inr (sm_zero, 0)
   \<and> (case SSTORE env0 0 0 frame0 sm_zero of
         Inl e \<Rightarrow> False
       | Inr (s1, sm1) \<Rightarrow> gasLeft s1 = 5000 \<and> gasRefund s1 = 15000)
   \<and> (case SSTORE env0 0 7 frame0 sm_zero of
         Inl e \<Rightarrow> False
       | Inr (s1, sm1) \<Rightarrow> gasLeft s1 = 5000 \<and> gasRefund s1 = 0)"
proof -
  have g: "getContractStorage sm_zero (rs_address frame0) (be_bytes 32 0) = (sm_zero, [0])"
    by (simp add: sm_zero_def putContractStorage_def getContractStorage_def
        getStorageTrie_def lookupStorageTrie_def getAccount_def getOrLoad_def
        cache_lookup_def putAccount_def cache_put_def cacheUpdate_def sm0_def frame0_def
        Let_def)
  have b: "(0::int) \<le> 0" "(0::int) < 2 ^ 256" "(0::int) \<le> 7" "(7::int) < 2 ^ 256"
    by simp_all
  have l: "SLOAD 0 frame0 sm_zero = Inr (sm_zero, 0)"
    using SLOAD_result [OF b(1,2) g] by (simp add: be_int_def)
  from SSTORE_result [OF b(1,2) b(1,2) g, of env0] SSTORE_result [OF b(1,2) b(3,4) g, of env0]
    g l
  show ?thesis
    by (simp add: Let_def sstoreResetGas_def sstoreRefundGas_def frame0_def)
qed

section \<open>The CALL family\<close>























lemma stipend_context: "same_context s s1 \<Longrightarrow> same_context s (s1\<lparr>gasLeft := g\<rparr>)"
  by (simp add: same_context_def)











subsection \<open>DELEGATECALL\<close>








section \<open>Contract creation\<close>

lemma putContractCode_read_back:
  "snd (getContractCode (putContractCode ev sm a v) a) = v"
  by (simp add: getContractCode_def putContractCode_def getAccount_def getOrLoad_def
      putAccount_def cache_put_def cacheUpdate_def cache_lookup_def lookupAccount_def
      Let_def split: option.splits prod.splits)

text \<open>
  A creation whose init code completed without an error and returned fewer than
  335545 bytes (a fee below 0x4000000). If the gas used plus \<open>createDataGas\<close> for every
  returned byte exceeds the gas limit, or more than 24576 bytes are returned, the
  creation fails: the return value is emptied, the gas used is the gas limit, the
  exception code is 0 with the error OUT_OF_GAS, the checkpoint is reverted and
  \<open>saveCode\<close> stores nothing. Otherwise the gas used includes the fee, the checkpoint
  is committed, and \<open>saveCode\<close> stores the returned bytes as the code of the created
  address (there is nothing to store when no byte is returned).
\<close>

lemma creation_finalization_small:
  assumes "int (length (vr_return r)) * createDataGas < 0x4000000"
  shows "(gasLimit < vr_gasUsed r + int (length (vr_return r)) * createDataGas
      \<or> 24576 < length (vr_return r)
    \<longrightarrow> runCall_finish ev sm (Some a) gasLimit None r
          = Inr (r\<lparr>vr_return := [], vr_exception := 0, vr_exceptionError := Some OUT_OF_GAS,
                   vr_gasUsed := gasLimit, vr_logs := []\<rparr>,
                 sm_revert sm))
   \<and> (\<not> (gasLimit < vr_gasUsed r + int (length (vr_return r)) * createDataGas
          \<or> 24576 < length (vr_return r))
    \<longrightarrow> runCall_finish ev sm (Some a) gasLimit None r
          = Inr (r\<lparr>vr_gasUsed := vr_gasUsed r + int (length (vr_return r)) * createDataGas\<rparr>,
                 Some (if vr_return r = [] then sm_commit sm
                       else putContractCode ev (sm_commit sm) a (vr_return r)))
        \<and> snd (getContractCode (putContractCode ev (sm_commit sm) a (vr_return r)) a)
            = vr_return r)"
  using assms
  by (auto simp: runCall_finish_def parseRunResult_def saveCode_def addn_def Let_def
      putContractCode_read_back option.map_ident)

text \<open>
  C2. The claim: a creation that returns more than 24576 bytes fails, with an empty
  return value, the gas limit as the gas used, the exception code 0 and the checkpoint
  reverted. For a return of 335545 bytes the fee is 67109000, which is not below
  0x4000000: the assertion of \<open>addn\<close> fails, the exception leaves \<open>parseRunResult\<close>, and
  \<open>runCall\<close> neither reverts the checkpoint nor reports a result.
\<close>

theorem creation_large_return_throws:
  "int (length (vr_return results_big)) * createDataGas = 67109000
   \<and> 24576 < length (vr_return results_big)
   \<and> vr_gasUsed results_big \<le> 1000000
   \<and> runCall_finish env0 (sm_checkpoint sm0) (Some address2) 1000000 None results_big
       = Inl AssertionError"
proof -
  have l: "length (vr_return results_big) = 335545"
    by (simp only: results_big_def vmResults.simps length_replicate)
  have g: "vr_gasUsed results_big = 300000"
    by (simp only: results_big_def vmResults.simps)
  have p: "parseRunResult (sm_checkpoint sm0) (Some address2) 1000000 None results_big
       = Inl AssertionError"
    unfolding parseRunResult_def Let_def l g
    by (simp add: addn_def createDataGas_def)
  show ?thesis
    unfolding runCall_finish_def p l g
    by (simp add: createDataGas_def)
qed

section \<open>Block processing\<close>

text \<open>
  C8. The claim: \<open>run_block\<close> processes every transaction of a block whose transactions
  all succeed, one receipt each, without aborting on an internal error. On a block of
  two transactions that succeed, the first receipt is written and then the increment
  of the constant \<open>validReceiptCount\<close> raises a TypeError: the run aborts with one
  receipt, and the second transaction is never run.
\<close>

theorem processTransactions_aborts_after_first:
  "(case processTransactions runTx0 (\<lambda>vm. []) False 1000000 [tx0, tx0] blockRun0 of
      Inl (e, st) \<Rightarrow> e = ASSIGNMENT_TO_CONSTANT \<and> length (receipts st) = 1
                      \<and> length (txResults st) = 1 \<and> br_vm st = 1
    | Inr st \<Rightarrow> False)"
  by (simp add: processTx_def runTx0_def blockRun0_def tx0_def increment_const_def Let_def)

section \<open>Bloom filter: add and check\<close>

text \<open>
  C9. The claim: \<open>check\<close> after \<open>add\<close> of the same element is true. \<open>add\<close> masks each
  slice of the digest with 2047, \<open>check\<close> with 511, so \<open>check\<close> looks at other bits
  whenever one of the two upper bits of a slice is set. The digest of the empty Buffer
  starts with c5d2: added to an empty filter, the empty Buffer is not found.
\<close>

theorem bloom_check_after_add_fails:
  "\<not> bloom_check (h([] := SHA3_NULL)) [] (bloom_add (h([] := SHA3_NULL)) [] (zeros byteSize))"
  by (simp add: bloom_check_def bloom_add_def zeros_def byteSize_def readUInt16BE_def
      SHA3_NULL_def Let_def)

end
